theory Spec2Isabelle
  imports Complex_Main "HOL-Library.Sublist" "HOL-Library.AList"
begin

section \<open>Data model\<close>

text \<open>
  A \<open>datetime\<close> is modelled by the number of microseconds (its resolution) since a fixed
  origin, a \<open>timedelta\<close> by a number of microseconds. \<open>total_seconds() < 300\<close> on a
  difference of two datetimes is then a comparison with 300 000 000 microseconds. The
  year range of \<open>datetime\<close> is not modelled. Where the source stores
  \<open>datetime.isoformat()\<close>, the model stores the datetime. An exception is modelled by
  its message \<open>str(e)\<close>. Characters are 8-bit; logging calls are left out. A name of
  the source loses its leading underscore.
\<close>

type_synonym time = int
type_synonym exn = string

text \<open>
  Modelled from the spec: the enum \<open>Severity\<close> and the class \<open>Vulnerability\<close> of
  \<open>cortex.vulnerability_scanner\<close> are not among the sources. The spec gives the five
  severities; the source names the members, reads \<open>.value\<close> and the fields
  \<open>package_name\<close> and \<open>severity\<close>.
\<close>

datatype Severity = CRITICAL | HIGH | MEDIUM | LOW | UNKNOWN

fun Severity_value :: "Severity \<Rightarrow> string" where
  "Severity_value CRITICAL = ''critical''"
| "Severity_value HIGH = ''high''"
| "Severity_value MEDIUM = ''medium''"
| "Severity_value LOW = ''low''"
| "Severity_value UNKNOWN = ''unknown''"

record Vulnerability =
  package_name :: string
  severity :: Severity

text \<open>
  Modelled from the spec: the result of \<open>VulnerabilityScanner.scan_all_packages\<close>, with
  the fields that \<open>run_schedule\<close> and \<open>create_patch_plan\<close> read.
\<close>

record ScanResult =
  vulnerabilities_found :: int
  critical_count :: int
  high_count :: int
  medium_count :: int
  low_count :: int
  scan_vulnerabilities :: "Vulnerability list"

text \<open>
  Modelled from the spec: the members of \<open>InstallationType\<close> and \<open>InstallationStatus\<close>
  (\<open>cortex.installation_history\<close>) that the patcher uses.
\<close>

datatype InstallationType = UPGRADE
datatype InstallationStatus = SUCCESS | FAILED

datatype PatchStrategy = AUTOMATIC | CRITICAL_ONLY | HIGH_AND_ABOVE | MANUAL

text \<open>A \<open>dict\<close> is an association list in insertion order, written with \<open>AList.update\<close>.\<close>

record PatchPlan =
  vulnerabilities :: "Vulnerability list"
  packages_to_update :: "(string \<times> string) list"
  estimated_duration_minutes :: real
  requires_reboot :: bool
  rollback_available :: bool

text \<open>
  \<open>patch_id\<close> holds the number \<open>int(time.time())\<close> of the string \<open>patch_<n>\<close>;
  \<open>duration_seconds\<close> is in microseconds.
\<close>

record PatchResult =
  patch_id :: int
  timestamp :: time
  vulnerabilities_patched :: nat
  packages_updated :: "string list"
  success :: bool
  errors :: "string list"
  rollback_id :: "string option"
  duration_seconds :: "int option"

text \<open>The attributes of \<open>AutonomousPatcher\<close> that the methods read.\<close>

record AutonomousPatcher =
  strategy :: PatchStrategy
  dry_run :: bool
  auto_approve :: bool
  whitelist :: "string set"
  blacklist :: "string set"
  min_severity :: Severity

datatype ScheduleFrequency = DAILY | WEEKLY | MONTHLY | CUSTOM

text \<open>The field \<open>dry_run\<close> of \<open>SecuritySchedule\<close> is named \<open>schedule_dry_run\<close> here.\<close>

record SecuritySchedule =
  schedule_id :: string
  frequency :: ScheduleFrequency
  scan_enabled :: bool
  patch_enabled :: bool
  patch_strategy :: PatchStrategy
  schedule_dry_run :: bool
  last_run :: "time option"
  next_run :: "time option"
  custom_cron :: "string option"

section \<open>The environment\<close>

text \<open>
  Every call that leaves the process is logged in the trace of the world. What the
  environment answers is given by an oracle: the answer to the call made when \<open>n\<close> calls
  have been logged, and the value of the clock at its \<open>n\<close>-th reading. The global
  \<open>_apt_last_updated\<close> is kept as the list of the values assigned to it, newest first.
\<close>

datatype event =
    RunCommand "string list"
  | RecordInstallation InstallationType "string list" "string list" time
  | UpdateInstallation string InstallationStatus "string option"
  | ScanAllPackages
  | LoadPatcher
  | SaveSchedules "(string \<times> SecuritySchedule) list"

record env =
  datetime_now_at :: "nat \<Rightarrow> time"
  time_time_at :: "nat \<Rightarrow> int"
  command_result :: "nat \<Rightarrow> string list \<Rightarrow> bool \<times> string \<times> string"
  record_installation_result :: "nat \<Rightarrow> exn + string"
  update_installation_result :: "nat \<Rightarrow> exn option"
  scan_all_packages_result :: "nat \<Rightarrow> exn + ScanResult"
  load_patcher_result :: "nat \<Rightarrow> exn + string set \<times> string set \<times> Severity"
  save_schedules_result :: "nat \<Rightarrow> exn option"

record world =
  trace :: "event list"
  clock_reads :: nat
  apt_writes :: "time list"

definition datetime_now :: "env \<Rightarrow> world \<Rightarrow> time \<times> world" where
  "datetime_now e w =
     (datetime_now_at e (clock_reads w), w\<lparr>clock_reads := Suc (clock_reads w)\<rparr>)"

definition time_time :: "env \<Rightarrow> world \<Rightarrow> int \<times> world" where
  "time_time e w =
     (time_time_at e (clock_reads w), w\<lparr>clock_reads := Suc (clock_reads w)\<rparr>)"

text \<open>
  \<open>_run_command\<close> turns a timeout and every exception into a failed triple, so it
  never raises: the oracle gives the triple.
\<close>

definition run_command ::
  "env \<Rightarrow> string list \<Rightarrow> world \<Rightarrow> (bool \<times> string \<times> string) \<times> world" where
  "run_command e cmd w =
     (command_result e (length (trace w)) cmd, w\<lparr>trace := trace w @ [RunCommand cmd]\<rparr>)"

definition apt_last_updated :: "world \<Rightarrow> time option" where
  "apt_last_updated w = (case apt_writes w of [] \<Rightarrow> None | t # _ \<Rightarrow> Some t)"

definition set_apt_last_updated :: "time \<Rightarrow> world \<Rightarrow> world" where
  "set_apt_last_updated t w = w\<lparr>apt_writes := t # apt_writes w\<rparr>"

section \<open>PolicyEngine: \<open>_should_patch\<close>\<close>

fun severity_order :: "Severity \<Rightarrow> nat" where
  "severity_order CRITICAL = 4"
| "severity_order HIGH = 3"
| "severity_order MEDIUM = 2"
| "severity_order LOW = 1"
| "severity_order UNKNOWN = 0"

definition should_patch :: "AutonomousPatcher \<Rightarrow> Vulnerability \<Rightarrow> bool" where
  "should_patch self vulnerability =
     (if package_name vulnerability \<in> blacklist self then False
      else if package_name vulnerability \<in> whitelist self then True
      else if severity_order (severity vulnerability) < severity_order (min_severity self)
        then False
      else (case strategy self of
          CRITICAL_ONLY \<Rightarrow> severity vulnerability = CRITICAL
        | HIGH_AND_ABOVE \<Rightarrow> severity vulnerability \<in> set [CRITICAL, HIGH]
        | AUTOMATIC \<Rightarrow> True
        | MANUAL \<Rightarrow> False))"

section \<open>RefreshGate: \<open>ensure_apt_updated\<close>\<close>

definition APT_UPDATE_INTERVAL_SECONDS :: int where
  "APT_UPDATE_INTERVAL_SECONDS = 300"

definition microseconds_per_second :: int where
  "microseconds_per_second = 1000000"

text \<open>The test of the first \<open>if\<close> of \<open>ensure_apt_updated\<close>, which returns early.\<close>

definition apt_cache_fresh :: "bool \<Rightarrow> time option \<Rightarrow> time \<Rightarrow> bool" where
  "apt_cache_fresh force last_updated now =
     (\<not> force \<and>
      (case last_updated of None \<Rightarrow> False
       | Some t \<Rightarrow> now - t < APT_UPDATE_INTERVAL_SECONDS * microseconds_per_second))"

definition apt_update_cmd :: "string list" where
  "apt_update_cmd = [''apt-get'', ''update'', ''-qq'']"

definition ensure_apt_updated :: "env \<Rightarrow> bool \<Rightarrow> world \<Rightarrow> bool \<times> world" where
  "ensure_apt_updated e force w =
     (case datetime_now e w of (now, w1) \<Rightarrow>
        if apt_cache_fresh force (apt_last_updated w1) now then (True, w1)
        else (case run_command e apt_update_cmd w1 of ((ok, out, err), w2) \<Rightarrow>
          if ok then (True, set_apt_last_updated now w2)
          else (False, set_apt_last_updated now w2)))"

section \<open>ScheduleManager: \<open>_calculate_next_run\<close>\<close>

definition timedelta_days :: "int \<Rightarrow> int" where
  "timedelta_days n = n * 24 * 60 * 60 * microseconds_per_second"

definition timedelta_weeks :: "int \<Rightarrow> int" where
  "timedelta_weeks n = timedelta_days (7 * n)"

definition calculate_next_run ::
  "env \<Rightarrow> ScheduleFrequency \<Rightarrow> string option \<Rightarrow> world \<Rightarrow> time option \<times> world" where
  "calculate_next_run e freq cron w =
     (case datetime_now e w of (now, w1) \<Rightarrow>
        (case freq of
           DAILY \<Rightarrow> (Some (now + timedelta_days 1), w1)
         | WEEKLY \<Rightarrow> (Some (now + timedelta_weeks 1), w1)
         | MONTHLY \<Rightarrow> (Some (now + timedelta_days 30), w1)
         | CUSTOM \<Rightarrow> (None, w1)))"

section \<open>PatchPlanner: \<open>create_patch_plan\<close>\<close>

text \<open>\<open>sub in s\<close>, \<open>s.split(c)\<close>, \<open>s.strip()\<close> (on ASCII white space) and \<open>sep.join(xs)\<close>.\<close>

fun str_contains :: "string \<Rightarrow> string \<Rightarrow> bool" where
  "str_contains sub [] = (sub = [])"
| "str_contains sub (c # cs) = (prefix sub (c # cs) \<or> str_contains sub cs)"

fun str_split :: "char \<Rightarrow> string \<Rightarrow> string list" where
  "str_split c [] = [] # []"
| "str_split c (x # xs) =
     (if x = c then [] # str_split c xs
      else (case str_split c xs of [] \<Rightarrow> [x] # [] | p # ps \<Rightarrow> (x # p) # ps))"

definition is_space :: "char \<Rightarrow> bool" where
  "is_space c = (of_char c \<in> set [9, 10, 11, 12, 13, 28, 29, 30, 31, 32 :: nat])"

definition str_strip :: "string \<Rightarrow> string" where
  "str_strip s = rev (dropWhile is_space (rev (dropWhile is_space s)))"

fun str_join :: "string \<Rightarrow> string list \<Rightarrow> string" where
  "str_join sep [] = []"
| "str_join sep [x] = x"
| "str_join sep (x # y # ys) = x @ sep @ str_join sep (y # ys)"

text \<open>The loop over the lines of the output of \<open>apt-cache policy\<close>.\<close>

fun find_candidate :: "string list \<Rightarrow> string option" where
  "find_candidate [] = None"
| "find_candidate (line # rest) =
     (if str_contains ''Candidate:'' line then
        (let parts = str_split CHR '':'' line in
         if length parts \<ge> 2 then
           (let version = str_strip (parts ! 1) in
            if version \<noteq> [] \<and> version \<noteq> ''(none)'' then Some version
            else find_candidate rest)
         else find_candidate rest)
      else find_candidate rest)"

definition check_package_update_available ::
  "env \<Rightarrow> string \<Rightarrow> world \<Rightarrow> string option \<times> world" where
  "check_package_update_available e pkg w =
     (case run_command e [''apt-cache'', ''policy'', pkg] w of ((ok, out, err), w1) \<Rightarrow>
        (if ok then find_candidate (str_split (CHR 0x0A) out) else None, w1))"

text \<open>
  The grouping loop: a package seen for the first time gets a new entry at the end of
  \<open>package_vulns\<close>, and the vulnerability is appended to the entry of its package.
\<close>

fun group_by_package ::
  "Vulnerability list \<Rightarrow> (string \<times> Vulnerability list) list
     \<Rightarrow> (string \<times> Vulnerability list) list" where
  "group_by_package [] package_vulns = package_vulns"
| "group_by_package (vuln # rest) package_vulns =
     (case map_of package_vulns (package_name vuln) of
        None \<Rightarrow>
          group_by_package rest (AList.update (package_name vuln) [vuln] package_vulns)
      | Some vs \<Rightarrow>
          group_by_package rest
            (AList.update (package_name vuln) (vs @ [vuln]) package_vulns))"

text \<open>The loop over \<open>package_vulns.items()\<close>, of which only the keys are read.\<close>

fun check_updates ::
  "env \<Rightarrow> string list \<Rightarrow> (string \<times> string) list \<Rightarrow> bool \<Rightarrow> world
     \<Rightarrow> ((string \<times> string) list \<times> bool) \<times> world" where
  "check_updates e [] to_update reboot w = ((to_update, reboot), w)"
| "check_updates e (pkg # rest) to_update reboot w =
     (case check_package_update_available e pkg w of
        (None, w1) \<Rightarrow> check_updates e rest to_update reboot w1
      | (Some update_version, w1) \<Rightarrow>
          if update_version \<noteq> [] then
            check_updates e rest (AList.update pkg update_version to_update)
              (if str_contains ''linux-image'' pkg \<or> str_contains ''linux-headers'' pkg
               then True else reboot) w1
          else check_updates e rest to_update reboot w1)"

definition scan_all_packages :: "env \<Rightarrow> world \<Rightarrow> (exn + ScanResult) \<times> world" where
  "scan_all_packages e w =
     (scan_all_packages_result e (length (trace w)), w\<lparr>trace := trace w @ [ScanAllPackages]\<rparr>)"

definition empty_plan :: PatchPlan where
  "empty_plan = \<lparr>vulnerabilities = [], packages_to_update = [],
     estimated_duration_minutes = 0, requires_reboot = False, rollback_available = True\<rparr>"

definition plan_for ::
  "env \<Rightarrow> AutonomousPatcher \<Rightarrow> Vulnerability list \<Rightarrow> world \<Rightarrow> PatchPlan \<times> world" where
  "plan_for e self vulns w =
     (let to_patch = filter (should_patch self) vulns in
      if to_patch = [] then (empty_plan, w)
      else
        (let package_vulns = group_by_package to_patch [] in
         case ensure_apt_updated e False w of (refreshed, w1) \<Rightarrow>
         case check_updates e (map fst package_vulns) [] False w1 of
           ((to_update, reboot), w2) \<Rightarrow>
             (\<lparr>vulnerabilities = to_patch, packages_to_update = to_update,
               estimated_duration_minutes = real (length to_update) * 1,
               requires_reboot = reboot, rollback_available = True\<rparr>, w2)))"

text \<open>
  \<open>create_patch_plan\<close>: without a list, the scanner gives it, and may raise;
  \<open>plan_for\<close> is the rest of the body.
\<close>

definition create_patch_plan ::
  "env \<Rightarrow> AutonomousPatcher \<Rightarrow> Vulnerability list option \<Rightarrow> world
     \<Rightarrow> (exn + PatchPlan) \<times> world" where
  "create_patch_plan e self vulns w =
     (case vulns of
        Some vs \<Rightarrow> (case plan_for e self vs w of (plan, w1) \<Rightarrow> (Inr plan, w1))
      | None \<Rightarrow>
          (case scan_all_packages e w of
             (Inl ex, w1) \<Rightarrow> (Inl ex, w1)
           | (Inr scan_result, w1) \<Rightarrow>
               (case plan_for e self (scan_vulnerabilities scan_result) w1 of
                  (plan, w2) \<Rightarrow> (Inr plan, w2))))"

section \<open>PatchExecutor: \<open>apply_patch_plan\<close>\<close>

definition record_installation ::
  "env \<Rightarrow> InstallationType \<Rightarrow> string list \<Rightarrow> string list \<Rightarrow> time \<Rightarrow> world
     \<Rightarrow> (exn + string) \<times> world" where
  "record_installation e ty packages commands start_time w =
     (record_installation_result e (length (trace w)),
      w\<lparr>trace := trace w @ [RecordInstallation ty packages commands start_time]\<rparr>)"

definition update_installation ::
  "env \<Rightarrow> string \<Rightarrow> InstallationStatus \<Rightarrow> string option \<Rightarrow> world
     \<Rightarrow> exn option \<times> world" where
  "update_installation e install_id status msg w =
     (update_installation_result e (length (trace w)),
      w\<lparr>trace := trace w @ [UpdateInstallation install_id status msg]\<rparr>)"

definition install_cmd :: "string \<times> string \<Rightarrow> string list" where
  "install_cmd p =
     (case p of (package, target_version) \<Rightarrow>
        if target_version \<noteq> []
        then [''apt-get'', ''install'', ''-y'', package @ ''='' @ target_version]
        else [''apt-get'', ''install'', ''-y'', package])"

text \<open>The loop over \<open>plan.packages_to_update.items()\<close>.\<close>

fun install_updates ::
  "env \<Rightarrow> (string \<times> string) list \<Rightarrow> string list \<Rightarrow> string list \<Rightarrow> world
     \<Rightarrow> (string list \<times> string list) \<times> world" where
  "install_updates e [] updated_packages errs w = ((updated_packages, errs), w)"
| "install_updates e (p # rest) updated_packages errs w =
     (case run_command e (install_cmd p) w of ((ok, out, err), w1) \<Rightarrow>
        if ok then install_updates e rest (updated_packages @ [fst p]) errs w1
        else install_updates e rest updated_packages
               (errs @ [''Failed to update '' @ fst p @ '': '' @ err]) w1)"

definition apply_patch_plan ::
  "env \<Rightarrow> AutonomousPatcher \<Rightarrow> PatchPlan \<Rightarrow> world \<Rightarrow> (exn + PatchResult) \<times> world" where
  "apply_patch_plan e self plan w =
     (case time_time e w of (secs, w1) \<Rightarrow>
      case datetime_now e w1 of (start_time, w2) \<Rightarrow>
      if packages_to_update plan = [] then
        (Inr \<lparr>patch_id = secs, timestamp = start_time, vulnerabilities_patched = 0,
              packages_updated = [], success = True, errors = [],
              rollback_id = None, duration_seconds = None\<rparr>, w2)
      else if dry_run self then
        (Inr \<lparr>patch_id = secs, timestamp = start_time,
              vulnerabilities_patched = length (vulnerabilities plan),
              packages_updated = map fst (packages_to_update plan),
              success = True, errors = [],
              rollback_id = None, duration_seconds = None\<rparr>, w2)
      else
        (let packages_list = map fst (packages_to_update plan);
             commands = [''apt-get update'',
                         ''apt-get install -y '' @ str_join '' '' packages_list] in
         case record_installation e UPGRADE packages_list commands start_time w2 of
           (Inl ex, w3) \<Rightarrow> (Inl ex, w3)
         | (Inr install_id, w3) \<Rightarrow>
         (case run_command e apt_update_cmd w3 of ((ok, out, err), w4) \<Rightarrow>
         (case install_updates e (packages_to_update plan) []
                (if \<not> ok then [''Failed to update package list: '' @ err] else []) w4 of
           ((updated_packages, errs), w5) \<Rightarrow>
         (case (if errs \<noteq> []
               then update_installation e install_id FAILED
                      (Some (str_join [CHR 0x0A] errs)) w5
               else update_installation e install_id SUCCESS None w5) of
           (None, w6) \<Rightarrow>
             (case datetime_now e w6 of (end_time, w7) \<Rightarrow>
                (Inr \<lparr>patch_id = secs, timestamp = start_time,
                      vulnerabilities_patched = length (vulnerabilities plan),
                      packages_updated = updated_packages,
                      success = (errs = []), errors = errs,
                      rollback_id = Some install_id,
                      duration_seconds = Some (end_time - start_time)\<rparr>, w7))
         | (Some ex, w6) \<Rightarrow>
             (let error_msg = ''Patch operation failed: '' @ ex in
              (case update_installation e install_id FAILED (Some error_msg) w6 of
                (Some ex2, w7) \<Rightarrow> (Inl ex2, w7)
              | (None, w7) \<Rightarrow>
                  (Inr \<lparr>patch_id = secs, timestamp = start_time,
                        vulnerabilities_patched = 0, packages_updated = [],
                        success = False, errors = errs @ [error_msg],
                        rollback_id = Some install_id, duration_seconds = None\<rparr>, w7))))))))"

definition patch_vulnerabilities ::
  "env \<Rightarrow> AutonomousPatcher \<Rightarrow> Vulnerability list option \<Rightarrow> world
     \<Rightarrow> (exn + PatchResult) \<times> world" where
  "patch_vulnerabilities e self vulns w =
     (case create_patch_plan e self vulns w of
        (Inl ex, w1) \<Rightarrow> (Inl ex, w1)
      | (Inr plan, w1) \<Rightarrow>
          if packages_to_update plan = [] then
            (case time_time e w1 of (secs, w2) \<Rightarrow>
             case datetime_now e w2 of (now, w3) \<Rightarrow>
               (Inr \<lparr>patch_id = secs, timestamp = now, vulnerabilities_patched = 0,
                     packages_updated = [], success = True, errors = [],
                     rollback_id = None, duration_seconds = None\<rparr>, w3))
          else apply_patch_plan e self plan w1)"

section \<open>ScheduleManager: \<open>run_schedule\<close>\<close>

text \<open>
  The dictionaries that \<open>run_schedule\<close> builds: its \<open>results\<close> and the two summaries
  in it, with the keys of the source prefixed.
\<close>

record ScanSummary =
  summary_vulnerabilities_found :: int
  summary_critical_count :: int
  summary_high_count :: int
  summary_medium_count :: int
  summary_low_count :: int

record PatchSummary =
  summary_packages_updated :: nat
  summary_vulnerabilities_patched :: nat
  summary_success :: bool
  summary_errors :: "string list"

record RunResults =
  results_schedule_id :: string
  results_timestamp :: time
  scan_result :: "ScanSummary option"
  patch_result :: "PatchSummary option"
  results_success :: bool
  results_errors :: "string list"

text \<open>
  \<open>AutonomousPatcher(strategy, dry_run)\<close>: the filters are what \<open>_load_config\<close> leaves
  in the new object, which the environment decides; building the scanner and the
  history of the object may raise.
\<close>

definition AutonomousPatcher_init ::
  "env \<Rightarrow> PatchStrategy \<Rightarrow> bool \<Rightarrow> world \<Rightarrow> (exn + AutonomousPatcher) \<times> world" where
  "AutonomousPatcher_init e strat dry w =
     ((case load_patcher_result e (length (trace w)) of
         Inl ex \<Rightarrow> Inl ex
       | Inr (wl, bl, floor_sev) \<Rightarrow>
           Inr \<lparr>strategy = strat, dry_run = dry, auto_approve = False,
                whitelist = wl, blacklist = bl, min_severity = floor_sev\<rparr>),
      w\<lparr>trace := trace w @ [LoadPatcher]\<rparr>)"

text \<open>
  \<open>_save_schedules\<close> catches a failed write itself (the oracle answers \<open>None\<close>) and
  raises when the directory cannot be made.
\<close>

definition save_schedules ::
  "env \<Rightarrow> (string \<times> SecuritySchedule) list \<Rightarrow> world \<Rightarrow> exn option \<times> world" where
  "save_schedules e schedules w =
     (save_schedules_result e (length (trace w)),
      w\<lparr>trace := trace w @ [SaveSchedules schedules]\<rparr>)"

text \<open>The filter of \<open>run_schedule\<close> on the findings of the scan.\<close>

definition critical_high :: "Vulnerability list \<Rightarrow> Vulnerability list" where
  "critical_high vs =
     filter (\<lambda>v. Severity_value (severity v) \<in> set [''critical'', ''high'']) vs"

text \<open>
  The body of the \<open>try\<close> of \<open>run_schedule\<close> up to the comment \<open># Update schedule\<close>. It
  gives the exception that left it, if any, and \<open>results\<close> as it has been filled.
\<close>

definition scan_and_patch ::
  "env \<Rightarrow> SecuritySchedule \<Rightarrow> RunResults \<Rightarrow> world \<Rightarrow> (exn option \<times> RunResults) \<times> world" where
  "scan_and_patch e schedule results w =
     (if scan_enabled schedule then
        (case scan_all_packages e w of
           (Inl ex, w1) \<Rightarrow> ((Some ex, results), w1)
         | (Inr sr, w1) \<Rightarrow>
             (let results1 = results\<lparr>scan_result := Some
                    \<lparr>summary_vulnerabilities_found = vulnerabilities_found sr,
                     summary_critical_count = critical_count sr,
                     summary_high_count = high_count sr,
                     summary_medium_count = medium_count sr,
                     summary_low_count = low_count sr\<rparr>\<rparr> in
              if patch_enabled schedule \<and> vulnerabilities_found sr > 0 then
                (case AutonomousPatcher_init e (patch_strategy schedule)
                        (schedule_dry_run schedule) w1 of
                   (Inl ex, w2) \<Rightarrow> ((Some ex, results1), w2)
                 | (Inr patcher, w2) \<Rightarrow>
                     (case patch_vulnerabilities e patcher
                             (Some (critical_high (scan_vulnerabilities sr))) w2 of
                        (Inl ex, w3) \<Rightarrow> ((Some ex, results1), w3)
                      | (Inr pr, w3) \<Rightarrow>
                          (let results2 = results1\<lparr>patch_result := Some
                                 \<lparr>summary_packages_updated = length (packages_updated pr),
                                  summary_vulnerabilities_patched = vulnerabilities_patched pr,
                                  summary_success = success pr,
                                  summary_errors = errors pr\<rparr>\<rparr> in
                           if \<not> success pr then
                             ((None, results2\<lparr>results_success := False,
                                 results_errors := results_errors results2 @ errors pr\<rparr>), w3)
                           else ((None, results2), w3))))
              else ((None, results1), w1)))
      else ((None, results), w))"

text \<open>
  The update step. The conditional expression evaluates its test
  \<open>_calculate_next_run(...)\<close> first and, when that is a datetime, calls
  \<open>_calculate_next_run\<close> again for the value, which is a datetime for the same frequency.
  The schedule is the object held in \<open>self.schedules\<close>, so assigning to its fields
  changes the dictionary. It gives the exception that \<open>_save_schedules\<close> raised, if any.
\<close>

definition update_schedule ::
  "env \<Rightarrow> string \<Rightarrow> SecuritySchedule \<Rightarrow> (string \<times> SecuritySchedule) list \<Rightarrow> world
     \<Rightarrow> (exn option \<times> (string \<times> SecuritySchedule) list) \<times> world" where
  "update_schedule e sid schedule schedules w =
     (case datetime_now e w of (now, w1) \<Rightarrow>
     (case calculate_next_run e (frequency schedule) (custom_cron schedule) w1 of
        (test, w2) \<Rightarrow>
     (case (if test \<noteq> None
            then calculate_next_run e (frequency schedule) (custom_cron schedule) w2
            else (None, w2)) of
        (next_run_value, w3) \<Rightarrow>
     (let schedules1 = AList.update sid
            (schedule\<lparr>last_run := Some now, next_run := next_run_value\<rparr>) schedules in
      (case save_schedules e schedules1 w3 of (ex, w4) \<Rightarrow> ((ex, schedules1), w4))))))"

definition capture_exception :: "exn \<Rightarrow> RunResults \<Rightarrow> RunResults" where
  "capture_exception ex results =
     results\<lparr>results_success := False,
       results_errors := results_errors results @ [''Schedule execution failed: '' @ ex]\<rparr>"

text \<open>The dictionary \<open>results\<close> as \<open>run_schedule\<close> first builds it.\<close>

definition new_results :: "string \<Rightarrow> time \<Rightarrow> RunResults" where
  "new_results sid now =
     \<lparr>results_schedule_id = sid, results_timestamp = now,
      scan_result = None, patch_result = None,
      results_success = True, results_errors = []\<rparr>"

text \<open>
  \<open>run_schedule\<close>, on the dictionary \<open>self.schedules\<close>, which it gives back. The
  \<open>ValueError\<close> for an unknown id leaves the function.
\<close>

definition run_schedule ::
  "env \<Rightarrow> (string \<times> SecuritySchedule) list \<Rightarrow> string \<Rightarrow> world
     \<Rightarrow> (exn + RunResults) \<times> (string \<times> SecuritySchedule) list \<times> world" where
  "run_schedule e schedules sid w =
     (case map_of schedules sid of
        None \<Rightarrow> (Inl (''Schedule '' @ sid @ '' not found''), schedules, w)
      | Some schedule \<Rightarrow>
          (case datetime_now e w of (now, w1) \<Rightarrow>
          (let results = new_results sid now in
           (case scan_and_patch e schedule results w1 of
              ((Some ex, results1), w2) \<Rightarrow>
                (Inr (capture_exception ex results1), schedules, w2)
            | ((None, results1), w2) \<Rightarrow>
                (case update_schedule e sid schedule schedules w2 of
                   ((Some ex, schedules1), w3) \<Rightarrow>
                     (Inr (capture_exception ex results1), schedules1, w3)
                 | ((None, schedules1), w3) \<Rightarrow> (Inr results1, schedules1, w3))))))"

section \<open>Concrete environments\<close>

text \<open>
  An environment whose clock advances by one second at each reading, whose history
  store and schedule file always answer, whose configuration file is absent, with the
  given outcomes of commands and scans; and the world before any call.
\<close>

definition example_env ::
  "(nat \<Rightarrow> string list \<Rightarrow> bool \<times> string \<times> string) \<Rightarrow> (nat \<Rightarrow> exn + ScanResult) \<Rightarrow> env" where
  "example_env commands scans =
     \<lparr>datetime_now_at = (\<lambda>n. int n * 1000000), time_time_at = (\<lambda>n. int n),
      command_result = commands,
      record_installation_result = (\<lambda>n. Inr ''install-1''),
      update_installation_result = (\<lambda>n. None),
      scan_all_packages_result = scans,
      load_patcher_result = (\<lambda>n. Inr ({}, {}, MEDIUM)),
      save_schedules_result = (\<lambda>n. None)\<rparr>"

definition initial_world :: world where
  "initial_world = \<lparr>trace = [], clock_reads = 0, apt_writes = []\<rparr>"

definition no_scanner :: "nat \<Rightarrow> exn + ScanResult" where
  "no_scanner n = Inl ''scanner unavailable''"

definition all_commands_succeed :: "nat \<Rightarrow> string list \<Rightarrow> bool \<times> string \<times> string" where
  "all_commands_succeed n cmd = (True, [], [])"

definition example_plan :: PatchPlan where
  "example_plan =
     \<lparr>vulnerabilities = [\<lparr>package_name = ''openssl'', severity = CRITICAL\<rparr>,
                         \<lparr>package_name = ''bash'', severity = HIGH\<rparr>],
      packages_to_update = [(''openssl'', ''3.0.2-1''), (''bash'', ''5.1-6'')],
      estimated_duration_minutes = 2, requires_reboot = False, rollback_available = True\<rparr>"

definition example_patcher :: "PatchStrategy \<Rightarrow> bool \<Rightarrow> AutonomousPatcher" where
  "example_patcher strat dry =
     \<lparr>strategy = strat, dry_run = dry, auto_approve = False,
      whitelist = {}, blacklist = {}, min_severity = MEDIUM\<rparr>"

text \<open>
  A scan with a critical and a medium finding; commands of which the refresh and the
  version lookup of \<open>openssl\<close> succeed and every install fails; a daily schedule that
  patches for real.
\<close>

definition example_scan :: "nat \<Rightarrow> exn + ScanResult" where
  "example_scan n = Inr \<lparr>vulnerabilities_found = 2, critical_count = 1, high_count = 0,
     medium_count = 1, low_count = 0,
     scan_vulnerabilities = [\<lparr>package_name = ''openssl'', severity = CRITICAL\<rparr>,
                             \<lparr>package_name = ''zlib'', severity = MEDIUM\<rparr>]\<rparr>"

definition candidate_commands :: "nat \<Rightarrow> string list \<Rightarrow> bool \<times> string \<times> string" where
  "candidate_commands n cmd =
     (if cmd = [''apt-cache'', ''policy'', ''openssl'']
      then (True, ''openssl:'' @ [CHR 0x0A] @ ''  Candidate: 3.0.2-1'', [])
      else if cmd = apt_update_cmd then (True, [], [])
      else (False, [], ''E: failed''))"

definition example_schedule :: SecuritySchedule where
  "example_schedule = \<lparr>schedule_id = ''nightly'', frequency = DAILY, scan_enabled = True,
     patch_enabled = True, patch_strategy = CRITICAL_ONLY, schedule_dry_run = False,
     last_run = None, next_run = None, custom_cron = None\<rparr>"

text \<open>The commands run in a trace, in order.\<close>

fun commands_of :: "event list \<Rightarrow> string list list" where
  "commands_of [] = []"
| "commands_of (RunCommand cmd # evs) = cmd # commands_of evs"
| "commands_of (ev # evs) = commands_of evs"

text \<open>Commands of which exactly the given one fails.\<close>

definition one_command_fails :: "string list \<Rightarrow> nat \<Rightarrow> string list \<Rightarrow> bool \<times> string \<times> string" where
  "one_command_fails failing n cmd = (cmd \<noteq> failing, [], ''E: failed'')"

section \<open>PolicyEngine\<close>

text \<open>
  C2. A vulnerability whose package is in the blacklist is never patched, whatever the
  strategy, the minimum severity and the whitelist are: the blacklist is tested first, so
  a package that is in both lists is not patched.
\<close>

theorem should_patch_blacklisted:
  "package_name v \<in> bl \<Longrightarrow>
   \<not> should_patch \<lparr>strategy = st, dry_run = d, auto_approve = a, whitelist = wl,
        blacklist = bl, min_severity = floor_sev\<rparr> v"
  by (simp add: should_patch_def)

theorem should_patch_blacklisted_witness:
  "''openssl'' \<in> {''openssl'', ''bash''} \<and>
   \<not> should_patch \<lparr>strategy = AUTOMATIC, dry_run = False, auto_approve = True,
        whitelist = {''openssl''}, blacklist = {''openssl'', ''bash''}, min_severity = LOW\<rparr>
      \<lparr>package_name = ''openssl'', severity = CRITICAL\<rparr>"
  using should_patch_blacklisted [of "\<lparr>package_name = ''openssl'', severity = CRITICAL\<rparr>"
      "{''openssl'', ''bash''}" AUTOMATIC False True "{''openssl''}" LOW]
  by simp

section \<open>Next run of a schedule\<close>

text \<open>
  C7. \<open>_calculate_next_run\<close> reads the clock once, and with \<open>now\<close> the value read:
  DAILY gives \<open>now\<close> plus one day (86 400 000 000 microseconds), WEEKLY \<open>now\<close> plus seven
  days, MONTHLY \<open>now\<close> plus thirty days, and CUSTOM gives no value.
\<close>

theorem calculate_next_run_offsets:
  "fst (calculate_next_run e DAILY cron w)
     = Some (datetime_now_at e (clock_reads w) + 86400000000) \<and>
   fst (calculate_next_run e WEEKLY cron w)
     = Some (datetime_now_at e (clock_reads w) + 7 * 86400000000) \<and>
   fst (calculate_next_run e MONTHLY cron w)
     = Some (datetime_now_at e (clock_reads w) + 30 * 86400000000) \<and>
   fst (calculate_next_run e CUSTOM cron w) = None"
  by (simp add: calculate_next_run_def datetime_now_def timedelta_days_def timedelta_weeks_def
      microseconds_per_second_def)

section \<open>PatchPlanner\<close>

text \<open>
  C8. When no vulnerability of the list passes \<open>_should_patch\<close> (so also for the empty
  list), \<open>create_patch_plan\<close> returns the empty plan: no vulnerabilities, no packages, a
  duration of zero, no reboot, rollback available. The world is unchanged: no call was
  made.
\<close>

theorem create_patch_plan_nothing_to_patch:
  assumes "filter (should_patch self) vulns = []"
  shows "create_patch_plan e self (Some vulns) w =
           (Inr \<lparr>vulnerabilities = [], packages_to_update = [],
                 estimated_duration_minutes = 0, requires_reboot = False,
                 rollback_available = True\<rparr>, w)"
  using assms by (simp add: create_patch_plan_def plan_for_def empty_plan_def)

theorem create_patch_plan_nothing_to_patch_witness:
  "filter (should_patch (example_patcher MANUAL False))
     [\<lparr>package_name = ''openssl'', severity = CRITICAL\<rparr>] = [] \<and>
   create_patch_plan (example_env all_commands_succeed no_scanner)
       (example_patcher MANUAL False)
       (Some [\<lparr>package_name = ''openssl'', severity = CRITICAL\<rparr>]) initial_world =
     (Inr \<lparr>vulnerabilities = [], packages_to_update = [],
           estimated_duration_minutes = 0, requires_reboot = False,
           rollback_available = True\<rparr>, initial_world)"
proof -
  have h: "filter (should_patch (example_patcher MANUAL False))
     [\<lparr>package_name = ''openssl'', severity = CRITICAL\<rparr>] = []"
    by (simp add: should_patch_def example_patcher_def)
  from h create_patch_plan_nothing_to_patch [OF h] show ?thesis by simp
qed

lemma group_by_package_keys:
  "fst ` set (group_by_package vs pv) = fst ` set pv \<union> package_name ` set vs"
  by (induction vs arbitrary: pv) (auto simp: dom_update split: option.splits)

lemma check_updates_keys:
  "check_updates e pkgs tu rb w = ((tu', rb'), w')
   \<Longrightarrow> fst ` set tu' \<subseteq> fst ` set tu \<union> set pkgs"
proof (induction pkgs arbitrary: tu rb w)
  case Nil
  then show ?case by simp
next
  case (Cons pkg rest)
  obtain uv w1 where c: "check_package_update_available e pkg w = (uv, w1)"
    by (cases "check_package_update_available e pkg w")
  show ?case
  proof (cases uv)
    case None
    with Cons.prems c have "check_updates e rest tu rb w1 = ((tu', rb'), w')" by simp
    from Cons.IH [OF this] show ?thesis by auto
  next
    case (Some ver)
    show ?thesis
    proof (cases "ver = []")
      case True
      with Cons.prems c Some have "check_updates e rest tu rb w1 = ((tu', rb'), w')" by simp
      from Cons.IH [OF this] show ?thesis by auto
    next
      case False
      with Cons.prems c Some obtain rb1 where
        "check_updates e rest (AList.update pkg ver tu) rb1 w1 = ((tu', rb'), w')"
        by simp
      from Cons.IH [OF this] show ?thesis by (auto simp: dom_update)
    qed
  qed
qed

lemma plan_for_keys:
  "fst ` set (packages_to_update (fst (plan_for e self vulns w)))
     \<subseteq> package_name ` set (vulnerabilities (fst (plan_for e self vulns w)))"
proof (cases "filter (should_patch self) vulns = []")
  case True
  then show ?thesis by (simp add: plan_for_def empty_plan_def)
next
  case False
  obtain r w1 where g: "ensure_apt_updated e False w = (r, w1)"
    by (cases "ensure_apt_updated e False w")
  obtain tu rb w2 where c:
    "check_updates e (map fst (group_by_package (filter (should_patch self) vulns) []))
       [] False w1 = ((tu, rb), w2)"
    by (metis prod.exhaust)
  from check_updates_keys [OF c]
  have "fst ` set tu \<subseteq> package_name ` set (filter (should_patch self) vulns)"
    using group_by_package_keys [of "filter (should_patch self) vulns" "[]"] by simp
  with False g c show ?thesis by (simp add: plan_for_def Let_def)
qed

text \<open>
  C9. For every list of vulnerabilities, \<open>create_patch_plan\<close> returns a plan, and every
  key of its \<open>packages_to_update\<close> is the package name of one of its (filtered)
  vulnerabilities.
\<close>

theorem create_patch_plan_keys:
  "\<exists>plan w'. create_patch_plan e self (Some vulns) w = (Inr plan, w') \<and>
     fst ` set (packages_to_update plan) \<subseteq> package_name ` set (vulnerabilities plan)"
proof -
  obtain plan w' where p: "plan_for e self vulns w = (plan, w')"
    by (cases "plan_for e self vulns w")
  with plan_for_keys [of e self vulns w] show ?thesis
    by (simp add: create_patch_plan_def)
qed

section \<open>PatchExecutor\<close>

text \<open>
  C4. With \<open>dry_run\<close> set, applying a plan whose \<open>packages_to_update\<close> is not empty
  returns a result (it cannot fail) and makes no call: the trace and the refresh time
  stamp are unchanged, so no install command is run. The result has \<open>success\<close> true,
  no error, every key of \<open>packages_to_update\<close> in \<open>packages_updated\<close>, in order,
  the number of vulnerabilities of the plan in \<open>vulnerabilities_patched\<close>, and no
  \<open>rollback_id\<close>.
\<close>

theorem apply_patch_plan_dry_run:
  assumes "dry_run self" and "packages_to_update plan \<noteq> []"
  shows "\<exists>r w'. apply_patch_plan e self plan w = (Inr r, w') \<and>
           trace w' = trace w \<and> apt_writes w' = apt_writes w \<and>
           success r \<and> errors r = [] \<and>
           packages_updated r = map fst (packages_to_update plan) \<and>
           vulnerabilities_patched r = length (vulnerabilities plan) \<and>
           rollback_id r = None"
  using assms
  by (simp add: apply_patch_plan_def time_time_def datetime_now_def)

theorem apply_patch_plan_dry_run_witness:
  "dry_run (example_patcher AUTOMATIC True) \<and> packages_to_update example_plan \<noteq> [] \<and>
   (\<exists>r w'. apply_patch_plan (example_env all_commands_succeed no_scanner)
              (example_patcher AUTOMATIC True) example_plan initial_world = (Inr r, w') \<and>
           trace w' = trace initial_world \<and> apt_writes w' = apt_writes initial_world \<and>
           success r \<and> errors r = [] \<and>
           packages_updated r = [''openssl'', ''bash''] \<and>
           vulnerabilities_patched r = 2 \<and>
           rollback_id r = None)"
proof -
  have h1: "dry_run (example_patcher AUTOMATIC True)"
    by (simp add: example_patcher_def)
  have h2: "packages_to_update example_plan \<noteq> []"
    by (simp add: example_plan_def)
  from apply_patch_plan_dry_run [OF h1 h2,
      of "example_env all_commands_succeed no_scanner" initial_world]
  show ?thesis using h1 h2 by (simp add: example_plan_def numeral_2_eq_2)
qed

lemma install_updates_world:
  "snd (install_updates e ps u er w)
     = w\<lparr>trace := trace w @ map (\<lambda>p. RunCommand (install_cmd p)) ps\<rparr>"
proof (induction ps arbitrary: u er w)
  case Nil
  then show ?case by simp
next
  case (Cons p rest)
  show ?case
    by (cases "command_result e (length (trace w)) (install_cmd p)")
       (simp add: run_command_def Cons.IH)
qed

lemma install_updates_errors:
  "\<exists>es. snd (fst (install_updates e ps u er w)) = er @ es"
proof (induction ps arbitrary: u er w)
  case Nil
  then show ?case by simp
next
  case (Cons p rest)
  obtain ok out err where c: "command_result e (length (trace w)) (install_cmd p) = (ok, out, err)"
    by (cases "command_result e (length (trace w)) (install_cmd p)")
  show ?case
  proof (cases ok)
    case True
    with c Cons.IH [of "u @ [fst p]" er] show ?thesis by (simp add: run_command_def)
  next
    case False
    from Cons.IH [of u "er @ [''Failed to update '' @ fst p @ '': '' @ err]"
        "w\<lparr>trace := trace w @ [RunCommand (install_cmd p)]\<rparr>"]
    obtain es where "snd (fst (install_updates e rest u
        (er @ [''Failed to update '' @ fst p @ '': '' @ err])
        (w\<lparr>trace := trace w @ [RunCommand (install_cmd p)]\<rparr>)))
      = (er @ [''Failed to update '' @ fst p @ '': '' @ err]) @ es" by blast
    with c False show ?thesis by (simp add: run_command_def)
  qed
qed

lemma install_updates_all_ok:
  "\<forall>i<length ps. fst (command_result e (length (trace w) + i) (install_cmd (ps ! i)))
   \<Longrightarrow> fst (install_updates e ps u er w) = (u @ map fst ps, er)"
proof (induction ps arbitrary: u w)
  case Nil
  then show ?case by simp
next
  case (Cons p rest)
  from Cons.prems have ok: "fst (command_result e (length (trace w)) (install_cmd p))"
    by force
  have "\<forall>i<length rest. fst (command_result e
      (length (trace (w\<lparr>trace := trace w @ [RunCommand (install_cmd p)]\<rparr>)) + i)
      (install_cmd (rest ! i)))"
  proof (intro allI impI)
    fix i assume "i < length rest"
    then have "Suc i < length (p # rest)" by simp
    with Cons.prems have "fst (command_result e (length (trace w) + Suc i)
        (install_cmd ((p # rest) ! Suc i)))" by blast
    then show "fst (command_result e
      (length (trace (w\<lparr>trace := trace w @ [RunCommand (install_cmd p)]\<rparr>)) + i)
      (install_cmd (rest ! i)))" by simp
  qed
  from Cons.IH [OF this, of "u @ [fst p]"] ok show ?case
    by (cases "command_result e (length (trace w)) (install_cmd p)")
       (simp add: run_command_def)
qed


lemma commands_of_append: "commands_of (xs @ ys) = commands_of xs @ commands_of ys"
  by (induction xs rule: commands_of.induct) simp_all

lemma commands_of_map_RunCommand: "commands_of (map (\<lambda>p. RunCommand (f p)) ps) = map f ps"
  by (induction ps) simp_all

lemma apply_patch_plan_commands:
  assumes nd: "\<not> dry_run self" and ne: "packages_to_update plan \<noteq> []"
    and rec: "record_installation_result e (length (trace w)) = Inr rid"
  shows "commands_of (trace (snd (apply_patch_plan e self plan w)))
     = commands_of (trace w) @ apt_update_cmd # map install_cmd (packages_to_update plan)"
proof -
  let ?ptu = "packages_to_update plan"
  let ?start = "datetime_now_at e (Suc (clock_reads w))"
  obtain ok out err where
    c: "command_result e (Suc (length (trace w))) apt_update_cmd = (ok, out, err)"
    by (metis prod.exhaust)
  define w4 where "w4 = w\<lparr>clock_reads := Suc (Suc (clock_reads w)),
     trace := trace w @ [RecordInstallation UPGRADE (map fst ?ptu)
        [''apt-get update'', ''apt-get install -y '' @ str_join '' '' (map fst ?ptu)] ?start,
        RunCommand apt_update_cmd]\<rparr>"
  define er0 where "er0 = (if ok then [] else [''Failed to update package list: '' @ err])"
  obtain ups errs w5 where iu: "install_updates e ?ptu [] er0 w4 = ((ups, errs), w5)"
    by (metis prod.exhaust)
  from install_updates_world [of e ?ptu "[]" er0 w4] iu
  have w5: "w5 = w4\<lparr>trace := trace w4 @ map (\<lambda>p. RunCommand (install_cmd p)) ?ptu\<rparr>"
    by simp
  show ?thesis
  proof (cases ok)
    case True
    with nd ne rec c iu [unfolded w4_def er0_def] show ?thesis
      by (simp add: apply_patch_plan_def time_time_def datetime_now_def record_installation_def
        run_command_def update_installation_def Let_def w5 w4_def
        commands_of_append commands_of_map_RunCommand split: option.splits)
  next
    case False
    with nd ne rec c iu [unfolded w4_def er0_def] show ?thesis
      by (simp add: apply_patch_plan_def time_time_def datetime_now_def record_installation_def
        run_command_def update_installation_def Let_def w5 w4_def
        commands_of_append commands_of_map_RunCommand split: option.splits)
  qed
qed


text \<open>
  C1. In a real execution (\<open>dry_run\<close> unset, a plan with packages, the history record
  created), the commands run are the refresh of the index and then the install of every
  package of \<open>packages_to_update\<close>, in order, whatever the outcome of each: a failed
  install does not stop the later ones. For a plan with the packages A then B, when the
  refresh and the install of A succeed, the install of B fails and the history update
  returns: \<open>packages_updated\<close> is \<open>[A]\<close>, there is exactly one error (the one of B),
  \<open>success\<close> is false and \<open>rollback_id\<close> is the id of the history record.
\<close>

theorem apply_patch_plan_partial_failure:
  assumes nd: "\<not> dry_run self" and ne: "packages_to_update plan \<noteq> []"
    and rec: "record_installation_result e (length (trace w)) = Inr rid"
  shows "commands_of (trace (snd (apply_patch_plan e self plan w)))
           = commands_of (trace w) @ apt_update_cmd # map install_cmd (packages_to_update plan) \<and>
         (packages_to_update plan = [(A, va), (B, vb)] \<and>
          fst (command_result e (length (trace w) + 1) apt_update_cmd) \<and>
          fst (command_result e (length (trace w) + 2) (install_cmd (A, va))) \<and>
          \<not> fst (command_result e (length (trace w) + 3) (install_cmd (B, vb))) \<and>
          update_installation_result e (length (trace w) + 4) = None
          \<longrightarrow> (\<exists>r w'. apply_patch_plan e self plan w = (Inr r, w') \<and>
                 packages_updated r = [A] \<and>
                 errors r = [''Failed to update '' @ B @ '': '' @
                    snd (snd (command_result e (length (trace w) + 3) (install_cmd (B, vb))))] \<and>
                 \<not> success r \<and> rollback_id r = Some rid))"
proof
  show "commands_of (trace (snd (apply_patch_plan e self plan w)))
           = commands_of (trace w) @ apt_update_cmd # map install_cmd (packages_to_update plan)"
    using nd ne rec by (rule apply_patch_plan_commands)
next
  show "packages_to_update plan = [(A, va), (B, vb)] \<and>
          fst (command_result e (length (trace w) + 1) apt_update_cmd) \<and>
          fst (command_result e (length (trace w) + 2) (install_cmd (A, va))) \<and>
          \<not> fst (command_result e (length (trace w) + 3) (install_cmd (B, vb))) \<and>
          update_installation_result e (length (trace w) + 4) = None
          \<longrightarrow> (\<exists>r w'. apply_patch_plan e self plan w = (Inr r, w') \<and>
                 packages_updated r = [A] \<and>
                 errors r = [''Failed to update '' @ B @ '': '' @
                    snd (snd (command_result e (length (trace w) + 3) (install_cmd (B, vb))))] \<and>
                 \<not> success r \<and> rollback_id r = Some rid)"
  proof
    assume h: "packages_to_update plan = [(A, va), (B, vb)] \<and>
          fst (command_result e (length (trace w) + 1) apt_update_cmd) \<and>
          fst (command_result e (length (trace w) + 2) (install_cmd (A, va))) \<and>
          \<not> fst (command_result e (length (trace w) + 3) (install_cmd (B, vb))) \<and>
          update_installation_result e (length (trace w) + 4) = None"
    obtain o1 e1 where c1: "command_result e (Suc (length (trace w))) apt_update_cmd = (True, o1, e1)"
      using h by (cases "command_result e (Suc (length (trace w))) apt_update_cmd") auto
    obtain o2 e2 where c2:
      "command_result e (Suc (Suc (length (trace w)))) (install_cmd (A, va)) = (True, o2, e2)"
      using h by (cases "command_result e (Suc (Suc (length (trace w)))) (install_cmd (A, va))") auto
    obtain o3 e3 where c3:
      "command_result e (Suc (Suc (Suc (length (trace w))))) (install_cmd (B, vb)) = (False, o3, e3)"
      using h
      by (cases "command_result e (Suc (Suc (Suc (length (trace w))))) (install_cmd (B, vb))")
         (auto simp: numeral_3_eq_3)
    have u: "update_installation_result e (Suc (Suc (Suc (Suc (length (trace w)))))) = None"
      using h by (simp add: numeral_eq_Suc)
    have p: "packages_to_update plan = [(A, va), (B, vb)]" using h by simp
    show "\<exists>r w'. apply_patch_plan e self plan w = (Inr r, w') \<and>
                 packages_updated r = [A] \<and>
                 errors r = [''Failed to update '' @ B @ '': '' @
                    snd (snd (command_result e (length (trace w) + 3) (install_cmd (B, vb))))] \<and>
                 \<not> success r \<and> rollback_id r = Some rid"
      using nd rec c1 c2 c3 u
      by (simp add: apply_patch_plan_def p time_time_def datetime_now_def record_installation_def
        run_command_def update_installation_def Let_def numeral_3_eq_3)
  qed
qed

theorem apply_patch_plan_partial_failure_witness:
  "commands_of (trace (snd (apply_patch_plan
       (example_env (one_command_fails (install_cmd (''bash'', ''5.1-6''))) no_scanner)
       (example_patcher AUTOMATIC False) example_plan initial_world)))
     = [''apt-get'', ''update'', ''-qq''] #
       [''apt-get'', ''install'', ''-y'', ''openssl=3.0.2-1''] #
       [''apt-get'', ''install'', ''-y'', ''bash=5.1-6''] # [] \<and>
   (\<exists>r w'. apply_patch_plan
       (example_env (one_command_fails (install_cmd (''bash'', ''5.1-6''))) no_scanner)
       (example_patcher AUTOMATIC False) example_plan initial_world = (Inr r, w') \<and>
     packages_updated r = [''openssl''] \<and>
     errors r = [''Failed to update bash: E: failed''] \<and>
     \<not> success r \<and> rollback_id r = Some ''install-1'')"
  using apply_patch_plan_partial_failure [of "example_patcher AUTOMATIC False" example_plan
      "example_env (one_command_fails (install_cmd (''bash'', ''5.1-6''))) no_scanner"
      initial_world "''install-1''" "''openssl''" "''3.0.2-1''" "''bash''" "''5.1-6''"]
  by (simp add: example_patcher_def example_plan_def example_env_def initial_world_def
      one_command_fails_def install_cmd_def apt_update_cmd_def)

text \<open>
  C10. In a real execution of a plan with packages, when the refresh of the index fails
  (and the history store answers), its message is the first error of the result,
  \<open>success\<close> is false and the last call marks the history record FAILED with the
  errors joined; when moreover every install succeeds, every package is in
  \<open>packages_updated\<close> and that message is the only error.
\<close>

theorem apply_patch_plan_refresh_failure:
  assumes nd: "\<not> dry_run self" and ne: "packages_to_update plan \<noteq> []"
    and rec: "record_installation_result e (length (trace w)) = Inr rid"
    and refresh: "command_result e (Suc (length (trace w))) apt_update_cmd = (False, out, err)"
    and upd: "update_installation_result e
                (length (trace w) + 2 + length (packages_to_update plan)) = None"
  shows "\<exists>r w' rest. apply_patch_plan e self plan w = (Inr r, w') \<and>
      errors r = (''Failed to update package list: '' @ err) # rest \<and>
      \<not> success r \<and> rollback_id r = Some rid \<and>
      last (trace w') = UpdateInstallation rid FAILED (Some (str_join [CHR 0x0A] (errors r))) \<and>
      ((\<forall>i<length (packages_to_update plan).
           fst (command_result e (length (trace w) + 2 + i)
                  (install_cmd (packages_to_update plan ! i))))
       \<longrightarrow> packages_updated r = map fst (packages_to_update plan) \<and> rest = [])"
proof -
  let ?ptu = "packages_to_update plan"
  let ?msg = "''Failed to update package list: '' @ err"
  let ?start = "datetime_now_at e (Suc (clock_reads w))"
  define w4 where "w4 = w\<lparr>clock_reads := Suc (Suc (clock_reads w)),
     trace := trace w @ [RecordInstallation UPGRADE (map fst ?ptu)
        [''apt-get update'', ''apt-get install -y '' @ str_join '' '' (map fst ?ptu)] ?start,
        RunCommand apt_update_cmd]\<rparr>"
  obtain ups errs w5 where iu: "install_updates e ?ptu [] [?msg] w4 = ((ups, errs), w5)"
    by (metis prod.exhaust)
  from install_updates_errors [of e ?ptu "[]" "[?msg]" w4] iu
  obtain es where errs: "errs = ?msg # es" by auto
  from install_updates_world [of e ?ptu "[]" "[?msg]" w4] iu
  have w5: "w5 = w4\<lparr>trace := trace w4 @ map (\<lambda>p. RunCommand (install_cmd p)) ?ptu\<rparr>"
    by simp
  have len: "length (trace w5) = length (trace w) + 2 + length ?ptu"
    by (simp add: w5 w4_def)
  have ok: "(\<forall>i<length ?ptu. fst (command_result e (length (trace w) + 2 + i)
                  (install_cmd (?ptu ! i)))) \<longrightarrow> ups = map fst ?ptu \<and> es = []"
  proof
    assume "\<forall>i<length ?ptu. fst (command_result e (length (trace w) + 2 + i)
                  (install_cmd (?ptu ! i)))"
    then have "\<forall>i<length ?ptu. fst (command_result e (length (trace w4) + i)
                  (install_cmd (?ptu ! i)))" by (simp add: w4_def)
    from install_updates_all_ok [OF this, of "[]" "[?msg]"] iu errs
    show "ups = map fst ?ptu \<and> es = []" by simp
  qed
  have run: "apply_patch_plan e self plan w =
     (Inr \<lparr>patch_id = time_time_at e (clock_reads w), timestamp = ?start,
           vulnerabilities_patched = length (vulnerabilities plan),
           packages_updated = ups, success = False, errors = errs,
           rollback_id = Some rid,
           duration_seconds = Some (datetime_now_at e (Suc (Suc (clock_reads w))) - ?start)\<rparr>,
      w5\<lparr>trace := trace w5 @ [UpdateInstallation rid FAILED (Some (str_join [CHR 0x0A] errs))],
         clock_reads := Suc (Suc (Suc (clock_reads w)))\<rparr>)"
    using nd ne rec refresh upd iu [unfolded w4_def] errs len
    by (simp add: apply_patch_plan_def time_time_def datetime_now_def record_installation_def
        run_command_def update_installation_def w5 w4_def Let_def)
  show ?thesis
    using ok errs by (simp add: run)
qed


theorem apply_patch_plan_refresh_failure_witness:
  "\<exists>r w'. apply_patch_plan (example_env (one_command_fails apt_update_cmd) no_scanner)
       (example_patcher AUTOMATIC False) example_plan initial_world = (Inr r, w') \<and>
     errors r = [''Failed to update package list: E: failed''] \<and>
     \<not> success r \<and> rollback_id r = Some ''install-1'' \<and>
     last (trace w') = UpdateInstallation ''install-1'' FAILED
        (Some ''Failed to update package list: E: failed'') \<and>
     packages_updated r = [''openssl'', ''bash'']"
  using apply_patch_plan_refresh_failure [of "example_patcher AUTOMATIC False" example_plan
      "example_env (one_command_fails apt_update_cmd) no_scanner"
      initial_world "''install-1''" "[]" "''E: failed''"]
  by (auto simp: example_patcher_def example_plan_def example_env_def initial_world_def
      one_command_fails_def install_cmd_def apt_update_cmd_def All_less_Suc numeral_2_eq_2)


section \<open>RefreshGate\<close>

text \<open>
  C3. Three facts about \<open>ensure_apt_updated\<close>, with \<open>now\<close> the clock value that a call
  reads on entry. (1) Two calls in a row without \<open>force\<close>, of which the first does not
  return early and the second reads the clock less than 300 seconds after the time
  stamp that the first recorded: the first records its \<open>now\<close>, the second returns true
  and runs nothing, so the refresh command is run exactly once over the two calls.
  (2) A call with \<open>force\<close> always runs the refresh command, once. (3) A call that does
  not return early assigns the time stamp exactly once, to its \<open>now\<close>, and returns
  whether the refresh command succeeded.
\<close>

theorem ensure_apt_updated_gate:
  "(\<not> apt_cache_fresh False (apt_last_updated w) (datetime_now_at e (clock_reads w)) \<and>
    datetime_now_at e (Suc (clock_reads w)) - datetime_now_at e (clock_reads w)
      < 300 * 1000000
    \<longrightarrow> apt_last_updated (snd (ensure_apt_updated e False w))
          = Some (datetime_now_at e (clock_reads w)) \<and>
        fst (ensure_apt_updated e False (snd (ensure_apt_updated e False w))) = True \<and>
        trace (snd (ensure_apt_updated e False (snd (ensure_apt_updated e False w))))
          = trace (snd (ensure_apt_updated e False w)) \<and>
        trace (snd (ensure_apt_updated e False (snd (ensure_apt_updated e False w))))
          = trace w @ [RunCommand apt_update_cmd]) \<and>
   trace (snd (ensure_apt_updated e True w)) = trace w @ [RunCommand apt_update_cmd] \<and>
   (\<not> apt_cache_fresh force (apt_last_updated w) (datetime_now_at e (clock_reads w))
    \<longrightarrow> apt_writes (snd (ensure_apt_updated e force w))
          = datetime_now_at e (clock_reads w) # apt_writes w \<and>
        fst (ensure_apt_updated e force w)
          = fst (command_result e (length (trace w)) apt_update_cmd))"
proof -
  have early: "apt_last_updated w' = Some t \<Longrightarrow>
      datetime_now_at e (clock_reads w') - t < 300 * 1000000 \<Longrightarrow>
      ensure_apt_updated e False w' = (True, w'\<lparr>clock_reads := Suc (clock_reads w')\<rparr>)"
    for w' t
    by (simp add: ensure_apt_updated_def datetime_now_def apt_cache_fresh_def
        apt_last_updated_def APT_UPDATE_INTERVAL_SECONDS_def microseconds_per_second_def)
  have act: "\<not> apt_cache_fresh f (apt_last_updated w) (datetime_now_at e (clock_reads w)) \<Longrightarrow>
      ensure_apt_updated e f w =
        (fst (command_result e (length (trace w)) apt_update_cmd),
         w\<lparr>clock_reads := Suc (clock_reads w),
           trace := trace w @ [RunCommand apt_update_cmd],
           apt_writes := datetime_now_at e (clock_reads w) # apt_writes w\<rparr>)" for f
    by (cases "command_result e (length (trace w)) apt_update_cmd")
       (simp add: ensure_apt_updated_def datetime_now_def run_command_def
          set_apt_last_updated_def apt_last_updated_def)
  have forced: "\<not> apt_cache_fresh True lu now" for lu now
    by (simp add: apt_cache_fresh_def)
  show ?thesis
  proof (intro conjI impI)
    assume h: "\<not> apt_cache_fresh False (apt_last_updated w) (datetime_now_at e (clock_reads w)) \<and>
      datetime_now_at e (Suc (clock_reads w)) - datetime_now_at e (clock_reads w) < 300 * 1000000"
    let ?w1 = "snd (ensure_apt_updated e False w)"
    from h have w1: "?w1 = w\<lparr>clock_reads := Suc (clock_reads w),
           trace := trace w @ [RunCommand apt_update_cmd],
           apt_writes := datetime_now_at e (clock_reads w) # apt_writes w\<rparr>"
      by (simp add: act)
    then show lu: "apt_last_updated ?w1 = Some (datetime_now_at e (clock_reads w))"
      by (simp add: apt_last_updated_def)
    from h w1 have "datetime_now_at e (clock_reads ?w1) - datetime_now_at e (clock_reads w)
        < 300 * 1000000" by simp
    from early [OF lu this]
    have second: "ensure_apt_updated e False ?w1 = (True, ?w1\<lparr>clock_reads := Suc (clock_reads ?w1)\<rparr>)" .
    show "fst (ensure_apt_updated e False ?w1) = True" by (simp add: second)
    show "trace (snd (ensure_apt_updated e False ?w1)) = trace ?w1" by (simp add: second)
    show "trace (snd (ensure_apt_updated e False ?w1)) = trace w @ [RunCommand apt_update_cmd]"
      by (simp add: second) (simp add: w1)
  next
    show "trace (snd (ensure_apt_updated e True w)) = trace w @ [RunCommand apt_update_cmd]"
      by (simp add: act [OF forced])
  next
    assume "\<not> apt_cache_fresh force (apt_last_updated w) (datetime_now_at e (clock_reads w))"
    then show "apt_writes (snd (ensure_apt_updated e force w))
          = datetime_now_at e (clock_reads w) # apt_writes w" by (simp add: act)
  next
    assume "\<not> apt_cache_fresh force (apt_last_updated w) (datetime_now_at e (clock_reads w))"
    then show "fst (ensure_apt_updated e force w)
          = fst (command_result e (length (trace w)) apt_update_cmd)" by (simp add: act)
  qed
qed

theorem ensure_apt_updated_gate_witness:
  "\<not> apt_cache_fresh False (apt_last_updated initial_world) 0 \<and>
   (1000000 :: int) - 0 < 300 * 1000000 \<and>
   fst (ensure_apt_updated (example_env (one_command_fails apt_update_cmd) no_scanner) False
     (snd (ensure_apt_updated (example_env (one_command_fails apt_update_cmd) no_scanner) False
        initial_world))) = True \<and>
   trace (snd (ensure_apt_updated (example_env (one_command_fails apt_update_cmd) no_scanner) False
     (snd (ensure_apt_updated (example_env (one_command_fails apt_update_cmd) no_scanner) False
        initial_world)))) = [RunCommand apt_update_cmd] \<and>
   trace (snd (ensure_apt_updated (example_env (one_command_fails apt_update_cmd) no_scanner) True
     initial_world)) = [RunCommand apt_update_cmd] \<and>
   apt_writes (snd (ensure_apt_updated (example_env (one_command_fails apt_update_cmd) no_scanner)
     False initial_world)) = [0] \<and>
   fst (ensure_apt_updated (example_env (one_command_fails apt_update_cmd) no_scanner)
     False initial_world) = False"
  using ensure_apt_updated_gate [of initial_world
      "example_env (one_command_fails apt_update_cmd) no_scanner" False]
  by (simp add: example_env_def initial_world_def one_command_fails_def
      apt_cache_fresh_def apt_last_updated_def ensure_apt_updated_def datetime_now_def
      run_command_def set_apt_last_updated_def APT_UPDATE_INTERVAL_SECONDS_def
      microseconds_per_second_def)


section \<open>ScheduleManager\<close>

lemma scan_and_patch_raises:
  "scan_and_patch e schedule results w = ((Some ex, results1), w2)
   \<Longrightarrow> results_errors results1 = results_errors results \<and>
       results_success results1 = results_success results"
  by (auto simp: scan_and_patch_def Let_def split: if_splits prod.splits sum.splits)

lemma scan_and_patch_failure_reported:
  "scan_and_patch e schedule results w = ((None, results1), w2)
   \<Longrightarrow> patch_result results = None
   \<Longrightarrow> patch_result results1 = Some ps \<Longrightarrow> \<not> summary_success ps
   \<Longrightarrow> \<not> results_success results1"
  by (auto simp: scan_and_patch_def Let_def split: if_splits prod.splits sum.splits)

lemma update_schedule_result:
  "update_schedule e sid schedule schedules w =
     ((save_schedules_result e (length (trace w)),
       AList.update sid (schedule\<lparr>last_run := Some (datetime_now_at e (clock_reads w)),
          next_run := fst (calculate_next_run e (frequency schedule) (custom_cron schedule)
                             (w\<lparr>clock_reads := clock_reads w + 2\<rparr>))\<rparr>) schedules),
      w\<lparr>clock_reads := (if frequency schedule = CUSTOM then clock_reads w + 2
                          else clock_reads w + 3),
        trace := trace w @ [SaveSchedules
          (AList.update sid (schedule\<lparr>last_run := Some (datetime_now_at e (clock_reads w)),
             next_run := fst (calculate_next_run e (frequency schedule) (custom_cron schedule)
                             (w\<lparr>clock_reads := clock_reads w + 2\<rparr>))\<rparr>) schedules)]\<rparr>)"
  by (cases "frequency schedule")
     (simp_all add: update_schedule_def datetime_now_def calculate_next_run_def
        save_schedules_def Let_def)

text \<open>
  C5. For a stored schedule, \<open>run_schedule\<close> is decided by how the block of scanning
  and patching ends. When the block completes, the schedule in the dictionary gets
  \<open>last_run\<close> set to the clock value read then and \<open>next_run\<close> recomputed by
  \<open>_calculate_next_run\<close>, and the last call is \<open>_save_schedules\<close> on that dictionary;
  this also when the patcher reported a failure, in which case the run is marked failed.
  When an exception leaves the block, the run is marked failed with that exception as
  its only error, the dictionary (so \<open>last_run\<close> and \<open>next_run\<close>) is unchanged and
  nothing is saved.
\<close>

theorem run_schedule_update:
  assumes known: "map_of schedules sid = Some schedule"
  shows
   "(scan_and_patch e schedule (new_results sid (datetime_now_at e (clock_reads w)))
        (w\<lparr>clock_reads := Suc (clock_reads w)\<rparr>) = ((None, results1), w2)
     \<longrightarrow> (\<exists>res scheds w'. run_schedule e schedules sid w = (Inr res, scheds, w') \<and>
            scheds = AList.update sid
              (schedule\<lparr>last_run := Some (datetime_now_at e (clock_reads w2)),
                 next_run := fst (calculate_next_run e (frequency schedule)
                    (custom_cron schedule) (w2\<lparr>clock_reads := clock_reads w2 + 2\<rparr>))\<rparr>)
              schedules \<and>
            trace w' = trace w2 @ [SaveSchedules scheds] \<and>
            (save_schedules_result e (length (trace w2)) = None \<longrightarrow> res = results1) \<and>
            (\<forall>ps. patch_result results1 = Some ps \<and> \<not> summary_success ps
                 \<longrightarrow> \<not> results_success res))) \<and>
    (scan_and_patch e schedule (new_results sid (datetime_now_at e (clock_reads w)))
        (w\<lparr>clock_reads := Suc (clock_reads w)\<rparr>) = ((Some ex, results1), w2)
     \<longrightarrow> run_schedule e schedules sid w =
           (Inr (results1\<lparr>results_success := False,
                   results_errors := [''Schedule execution failed: '' @ ex]\<rparr>),
            schedules, w2))"
proof (intro conjI impI)
  assume sp: "scan_and_patch e schedule (new_results sid (datetime_now_at e (clock_reads w)))
        (w\<lparr>clock_reads := Suc (clock_reads w)\<rparr>) = ((None, results1), w2)"
  let ?scheds = "AList.update sid
              (schedule\<lparr>last_run := Some (datetime_now_at e (clock_reads w2)),
                 next_run := fst (calculate_next_run e (frequency schedule)
                    (custom_cron schedule) (w2\<lparr>clock_reads := clock_reads w2 + 2\<rparr>))\<rparr>)
              schedules"
  have failed: "\<not> results_success results1"
    if "patch_result results1 = Some ps" and "\<not> summary_success ps" for ps
    using scan_and_patch_failure_reported [OF sp _ that] by (simp add: new_results_def)
  show "\<exists>res scheds w'. run_schedule e schedules sid w = (Inr res, scheds, w') \<and>
            scheds = ?scheds \<and>
            trace w' = trace w2 @ [SaveSchedules scheds] \<and>
            (save_schedules_result e (length (trace w2)) = None \<longrightarrow> res = results1) \<and>
            (\<forall>ps. patch_result results1 = Some ps \<and> \<not> summary_success ps
                 \<longrightarrow> \<not> results_success res)"
  proof (cases "save_schedules_result e (length (trace w2))")
    case None
    with known sp failed show ?thesis
      by (auto simp: run_schedule_def datetime_now_def Let_def update_schedule_result)
  next
    case (Some ex2)
    with known sp show ?thesis
      by (auto simp: run_schedule_def datetime_now_def Let_def update_schedule_result
          capture_exception_def)
  qed
next
  assume sp: "scan_and_patch e schedule (new_results sid (datetime_now_at e (clock_reads w)))
        (w\<lparr>clock_reads := Suc (clock_reads w)\<rparr>) = ((Some ex, results1), w2)"
  from scan_and_patch_raises [OF sp]
  have "results_errors results1 = []" by (simp add: new_results_def)
  with known sp show "run_schedule e schedules sid w =
           (Inr (results1\<lparr>results_success := False,
                   results_errors := [''Schedule execution failed: '' @ ex]\<rparr>),
            schedules, w2)"
    by (simp add: run_schedule_def datetime_now_def Let_def capture_exception_def)
qed


text \<open>The definitions that a concrete run unfolds.\<close>

lemmas model_defs = run_schedule_def new_results_def scan_and_patch_def scan_all_packages_def
  AutonomousPatcher_init_def critical_high_def patch_vulnerabilities_def create_patch_plan_def
  plan_for_def should_patch_def ensure_apt_updated_def apt_cache_fresh_def apt_last_updated_def
  set_apt_last_updated_def run_command_def datetime_now_def time_time_def
  check_package_update_available_def str_strip_def is_space_def apply_patch_plan_def
  record_installation_def update_installation_def install_cmd_def update_schedule_def
  calculate_next_run_def timedelta_days_def timedelta_weeks_def microseconds_per_second_def
  save_schedules_def capture_exception_def apt_update_cmd_def empty_plan_def
  APT_UPDATE_INTERVAL_SECONDS_def Let_def

lemmas example_defs = example_env_def example_scan_def candidate_commands_def
  example_schedule_def initial_world_def no_scanner_def example_patcher_def

theorem run_schedule_update_witness:
  "map_of [(''nightly'', example_schedule)] ''nightly'' = Some example_schedule \<and>
   (\<exists>res w'. run_schedule (example_env candidate_commands example_scan)
        [(''nightly'', example_schedule)] ''nightly'' initial_world =
        (Inr res, [(''nightly'', example_schedule\<lparr>last_run := Some 5000000,
                                  next_run := Some 86407000000\<rparr>)], w') \<and>
      \<not> results_success res \<and>
      results_errors res = [''Failed to update openssl: E: failed'']) \<and>
   (\<exists>res w'. run_schedule (example_env candidate_commands no_scanner)
        [(''nightly'', example_schedule)] ''nightly'' initial_world =
        (Inr res, [(''nightly'', example_schedule)], w') \<and>
      \<not> results_success res \<and>
      results_errors res = [''Schedule execution failed: scanner unavailable''])"
proof -
  let ?S = "[(''nightly'', example_schedule)]"
  let ?E1 = "example_env candidate_commands example_scan"
  let ?E2 = "example_env candidate_commands no_scanner"
  let ?sp1 = "scan_and_patch ?E1 example_schedule
     (new_results ''nightly'' (datetime_now_at ?E1 (clock_reads initial_world)))
     (initial_world\<lparr>clock_reads := Suc (clock_reads initial_world)\<rparr>)"
  let ?sp2 = "scan_and_patch ?E2 example_schedule
     (new_results ''nightly'' (datetime_now_at ?E2 (clock_reads initial_world)))
     (initial_world\<lparr>clock_reads := Suc (clock_reads initial_world)\<rparr>)"
  have known: "map_of ?S ''nightly'' = Some example_schedule" by simp
  have "fst (fst ?sp1) = None" by (simp add: model_defs example_defs)
  then have sp1: "?sp1 = ((None, snd (fst ?sp1)), snd ?sp1)"
    by (metis prod.collapse)
  have "fst (fst ?sp2) = Some ''scanner unavailable''" by (simp add: model_defs example_defs)
  then have sp2: "?sp2 = ((Some ''scanner unavailable'', snd (fst ?sp2)), snd ?sp2)"
    by (metis prod.collapse)
  have r1: "snd (fst ?sp1) = \<lparr>results_schedule_id = ''nightly'', results_timestamp = 0,
         scan_result = Some \<lparr>summary_vulnerabilities_found = 2, summary_critical_count = 1,
               summary_high_count = 0, summary_medium_count = 1, summary_low_count = 0\<rparr>,
         patch_result = Some \<lparr>summary_packages_updated = 0,
               summary_vulnerabilities_patched = 1, summary_success = False,
               summary_errors = [''Failed to update openssl: E: failed'']\<rparr>,
         results_success = False,
         results_errors = [''Failed to update openssl: E: failed'']\<rparr>"
    by (simp add: model_defs example_defs)
  have c1: "clock_reads (snd ?sp1) = 5" by (simp add: model_defs example_defs)
  have sv: "save_schedules_result ?E1 n = None" for n by (simp add: example_env_def)
  have upd: "AList.update ''nightly''
          (example_schedule\<lparr>last_run := Some (datetime_now_at ?E1 (clock_reads (snd ?sp1))),
             next_run := fst (calculate_next_run ?E1 (frequency example_schedule)
                (custom_cron example_schedule)
                ((snd ?sp1)\<lparr>clock_reads := clock_reads (snd ?sp1) + 2\<rparr>))\<rparr>) ?S
     = [(''nightly'', example_schedule\<lparr>last_run := Some 5000000,
                                  next_run := Some 86407000000\<rparr>)]"
    unfolding c1
    by (simp add: calculate_next_run_def datetime_now_def timedelta_days_def
        microseconds_per_second_def example_env_def example_schedule_def)
  note run_schedule_update [OF known, of ?E1 initial_world "snd (fst ?sp1)" "snd ?sp1",
      THEN conjunct1, rule_format, OF sp1, unfolded upd sv]
  then have a: "\<exists>w'. run_schedule ?E1 ?S ''nightly'' initial_world =
      (Inr (snd (fst ?sp1)), [(''nightly'', example_schedule\<lparr>last_run := Some 5000000,
                                  next_run := Some 86407000000\<rparr>)], w')"
    by (elim exE conjE) simp
  from run_schedule_update [OF known, of ?E2 initial_world "snd (fst ?sp2)" "snd ?sp2"
      "''scanner unavailable''", THEN conjunct2, rule_format, OF sp2]
  have b: "run_schedule ?E2 ?S ''nightly'' initial_world =
      (Inr ((snd (fst ?sp2))\<lparr>results_success := False,
              results_errors := [''Schedule execution failed: scanner unavailable'']\<rparr>),
       ?S, snd ?sp2)" by simp
  from a obtain w1 where a1: "run_schedule ?E1 ?S ''nightly'' initial_world =
      (Inr (snd (fst ?sp1)), [(''nightly'', example_schedule\<lparr>last_run := Some 5000000,
                                  next_run := Some 86407000000\<rparr>)], w1)" ..
  have p1: "\<exists>res w'. run_schedule ?E1 ?S ''nightly'' initial_world =
        (Inr res, [(''nightly'', example_schedule\<lparr>last_run := Some 5000000,
                                  next_run := Some 86407000000\<rparr>)], w') \<and>
      \<not> results_success res \<and>
      results_errors res = [''Failed to update openssl: E: failed'']"
    unfolding a1 by (simp add: r1)
  have p2: "\<exists>res w'. run_schedule ?E2 ?S ''nightly'' initial_world =
        (Inr res, ?S, w') \<and>
      \<not> results_success res \<and>
      results_errors res = [''Schedule execution failed: scanner unavailable'']"
    unfolding b by simp
  from known p1 p2 show ?thesis by (intro conjI)
qed


lemma critical_high_eq:
  "critical_high vs = filter (\<lambda>v. severity v = CRITICAL \<or> severity v = HIGH) vs"
proof -
  have "(Severity_value s \<in> set [''critical'', ''high'']) = (s = CRITICAL \<or> s = HIGH)" for s
    by (cases s) simp_all
  then show ?thesis by (simp add: critical_high_def)
qed

text \<open>
  C6. In a run of a schedule with scanning and patching enabled, whose scan
  reports at least one vulnerability and whose patcher object is built, the block of
  scanning and patching is the call of \<open>patch_vulnerabilities\<close> on exactly the findings
  of severity CRITICAL or HIGH, by a patcher with the strategy and the dry-run flag of
  the schedule: it leaves the world that this call leaves, raises what it raises and
  reports its result. The list does not depend on the minimum severity of the patcher;
  every finding in it reaches that minimum when the minimum is not CRITICAL.
\<close>

theorem scan_and_patch_hands_critical_high:
  assumes scan: "scan_enabled schedule" and patch: "patch_enabled schedule"
    and sr: "scan_all_packages_result e (length (trace w)) = Inr sr"
    and found: "vulnerabilities_found sr > 0"
    and load: "load_patcher_result e (Suc (length (trace w))) = Inr (wl, bl, floor_sev)"
    and handed: "handed = filter (\<lambda>v. severity v = CRITICAL \<or> severity v = HIGH)
                            (scan_vulnerabilities sr)"
    and run: "run = patch_vulnerabilities e
                \<lparr>strategy = patch_strategy schedule, dry_run = schedule_dry_run schedule,
                 auto_approve = False, whitelist = wl, blacklist = bl,
                 min_severity = floor_sev\<rparr>
                (Some handed) (w\<lparr>trace := trace w @ [ScanAllPackages, LoadPatcher]\<rparr>)"
  shows "snd (scan_and_patch e schedule results w) = snd run \<and>
         (case fst run of
            Inl ex \<Rightarrow> fst (fst (scan_and_patch e schedule results w)) = Some ex
          | Inr pr \<Rightarrow>
              fst (fst (scan_and_patch e schedule results w)) = None \<and>
              patch_result (snd (fst (scan_and_patch e schedule results w))) =
                Some \<lparr>summary_packages_updated = length (packages_updated pr),
                      summary_vulnerabilities_patched = vulnerabilities_patched pr,
                      summary_success = success pr, summary_errors = errors pr\<rparr>) \<and>
         (floor_sev \<noteq> CRITICAL \<longrightarrow>
            (\<forall>v \<in> set handed. severity_order floor_sev \<le> severity_order (severity v)))"
proof (intro conjI)
  obtain out w3 where r: "run = (out, w3)" by (cases run)
  have sp: "scan_and_patch e schedule results w =
    (case run of
       (Inl ex, w3) \<Rightarrow> ((Some ex, results\<lparr>scan_result := Some
                    \<lparr>summary_vulnerabilities_found = vulnerabilities_found sr,
                     summary_critical_count = critical_count sr,
                     summary_high_count = high_count sr,
                     summary_medium_count = medium_count sr,
                     summary_low_count = low_count sr\<rparr>\<rparr>), w3)
     | (Inr pr, w3) \<Rightarrow>
         (let results2 = results\<lparr>scan_result := Some
                    \<lparr>summary_vulnerabilities_found = vulnerabilities_found sr,
                     summary_critical_count = critical_count sr,
                     summary_high_count = high_count sr,
                     summary_medium_count = medium_count sr,
                     summary_low_count = low_count sr\<rparr>,
                  patch_result := Some
                    \<lparr>summary_packages_updated = length (packages_updated pr),
                      summary_vulnerabilities_patched = vulnerabilities_patched pr,
                      summary_success = success pr, summary_errors = errors pr\<rparr>\<rparr> in
          if \<not> success pr then
            ((None, results2\<lparr>results_success := False,
                 results_errors := results_errors results2 @ errors pr\<rparr>), w3)
          else ((None, results2), w3)))"
    using scan patch sr found load
    by (simp add: scan_and_patch_def scan_all_packages_def AutonomousPatcher_init_def
        Let_def run handed critical_high_eq)
  show "snd (scan_and_patch e schedule results w) = snd run"
    by (cases out) (simp_all add: sp r Let_def)
  show "case fst run of
            Inl ex \<Rightarrow> fst (fst (scan_and_patch e schedule results w)) = Some ex
          | Inr pr \<Rightarrow>
              fst (fst (scan_and_patch e schedule results w)) = None \<and>
              patch_result (snd (fst (scan_and_patch e schedule results w))) =
                Some \<lparr>summary_packages_updated = length (packages_updated pr),
                      summary_vulnerabilities_patched = vulnerabilities_patched pr,
                      summary_success = success pr, summary_errors = errors pr\<rparr>"
    by (cases out) (simp_all add: sp r Let_def)
  show "floor_sev \<noteq> CRITICAL \<longrightarrow>
            (\<forall>v \<in> set handed. severity_order floor_sev \<le> severity_order (severity v))"
    by (cases floor_sev) (auto simp: handed)
qed

theorem scan_and_patch_hands_critical_high_witness:
  "scan_enabled example_schedule \<and> patch_enabled example_schedule \<and> MEDIUM \<noteq> CRITICAL \<and>
   snd (scan_and_patch (example_env candidate_commands example_scan) example_schedule
          (new_results ''nightly'' 0) initial_world) =
   snd (patch_vulnerabilities (example_env candidate_commands example_scan)
          (example_patcher CRITICAL_ONLY False)
          (Some [\<lparr>package_name = ''openssl'', severity = CRITICAL\<rparr>])
          (initial_world\<lparr>trace := [ScanAllPackages, LoadPatcher]\<rparr>)) \<and>
   severity_order MEDIUM
     \<le> severity_order (severity \<lparr>package_name = ''openssl'', severity = CRITICAL\<rparr>)"
proof -
  let ?E = "example_env candidate_commands example_scan"
  let ?sr = "\<lparr>vulnerabilities_found = 2, critical_count = 1, high_count = 0,
     medium_count = 1, low_count = 0,
     scan_vulnerabilities = [\<lparr>package_name = ''openssl'', severity = CRITICAL\<rparr>,
                             \<lparr>package_name = ''zlib'', severity = MEDIUM\<rparr>]\<rparr>"
  have h1: "scan_enabled example_schedule" and h2: "patch_enabled example_schedule"
    by (simp_all add: example_schedule_def)
  have h3: "scan_all_packages_result ?E (length (trace initial_world)) = Inr ?sr"
    by (simp add: example_env_def example_scan_def)
  have h4: "vulnerabilities_found ?sr > 0" by simp
  have h5: "load_patcher_result ?E (Suc (length (trace initial_world))) = Inr ({}, {}, MEDIUM)"
    by (simp add: example_env_def)
  have h6: "[\<lparr>package_name = ''openssl'', severity = CRITICAL\<rparr>] =
     filter (\<lambda>v. severity v = CRITICAL \<or> severity v = HIGH) (scan_vulnerabilities ?sr)"
    by simp
  from scan_and_patch_hands_critical_high [OF h1 h2 h3 h4 h5 h6 refl,
      of "new_results ''nightly'' 0"] h1 h2
  show ?thesis
    by (simp add: example_schedule_def example_patcher_def initial_world_def)
qed


text \<open>
  With a minimum severity of CRITICAL the cutoff of \<open>run_schedule\<close> is wider than the
  floor: it keeps a HIGH finding, which is below the floor and which \<open>_should_patch\<close>
  then rejects.
\<close>

theorem scheduled_cutoff_wider_than_floor_counterexample:
  "\<lparr>package_name = ''openssl'', severity = HIGH\<rparr>
     \<in> set (critical_high [\<lparr>package_name = ''openssl'', severity = HIGH\<rparr>]) \<and>
   \<not> severity_order (min_severity \<lparr>strategy = AUTOMATIC, dry_run = True, auto_approve = False,
          whitelist = {}, blacklist = {}, min_severity = CRITICAL\<rparr>)
       \<le> severity_order (severity \<lparr>package_name = ''openssl'', severity = HIGH\<rparr>) \<and>
   \<not> should_patch \<lparr>strategy = AUTOMATIC, dry_run = True, auto_approve = False,
          whitelist = {}, blacklist = {}, min_severity = CRITICAL\<rparr>
        \<lparr>package_name = ''openssl'', severity = HIGH\<rparr>"
  by (simp add: critical_high_def should_patch_def)



end
